theory Spec2Isabelle
  imports Complex_Main "HOL-Library.Word"
begin

unbundle bit_operations_syntax

section \<open>Data model\<close>

text \<open>
  The numeric values of the program are JavaScript numbers. The geometric functions are
  modelled in exact real arithmetic (\<open>real\<close>, with \<open>cos\<close> and \<open>pi\<close> of
  \<open>Complex_Main\<close>); rounding of IEEE doubles is outside the model. The integer
  bit operations of the polyline decoder are modelled on \<open>32 word\<close>, as JavaScript
  performs them on 32-bit two's complement values.
\<close>

record LatLng =
  lat :: real
  lng :: real

record Bounds =
  north :: real
  south :: real
  east :: real
  west :: real

text \<open>
  The declared type of \<open>cornerPosition\<close> has four members; the \<open>default\<close> branch of
  the \<open>switch\<close> in \<open>calculateBoundsFromCorner\<close> is reached by any other run-time value
  (the extraction may deliver \<open>"unknown"\<close>), which is \<open>OtherCorner\<close> here.
\<close>

datatype CornerPosition = Northwest | Northeast | Southwest | Southeast | OtherCorner

record ShiftMeters =
  shiftNorth :: real
  shiftEast :: real

record RefinementAdjustment =
  shiftMeters :: ShiftMeters
  scaleFactor :: real
  confidence :: real
  reasoning :: string

section \<open>Bounds calculator (src/index.ts)\<close>

definition METERS_PER_LAT_DEG :: real where
  "METERS_PER_LAT_DEG = 111000"

text \<open>
  The width and the height in meters, from the longest side and the aspect ratio, as
  both bounds functions compute them. The parameter default \<open>aspectRatio = 1\<close> is
  left to the caller: the functions below take the aspect ratio explicitly.
\<close>

definition widthMeters :: "real \<Rightarrow> real \<Rightarrow> real" where
  "widthMeters sizeMeters aspectRatio =
     (if aspectRatio \<ge> 1 then sizeMeters else sizeMeters * aspectRatio)"

definition heightMeters :: "real \<Rightarrow> real \<Rightarrow> real" where
  "heightMeters sizeMeters aspectRatio =
     (if aspectRatio \<ge> 1 then sizeMeters / aspectRatio else sizeMeters)"

definition calculateBoundsFromCorner ::
  "LatLng \<Rightarrow> CornerPosition \<Rightarrow> real \<Rightarrow> real \<Rightarrow> Bounds" where
  "calculateBoundsFromCorner corner cornerPosition sizeMeters aspectRatio =
     (let latRadians = (lat corner * pi) / 180;
          metersPerLngDeg = cos latRadians * 111000;
          latDelta = heightMeters sizeMeters aspectRatio / METERS_PER_LAT_DEG;
          lngDelta = widthMeters sizeMeters aspectRatio / metersPerLngDeg
      in case cornerPosition of
           Northwest \<Rightarrow>
             \<lparr>north = lat corner, south = lat corner - latDelta,
              east = lng corner + lngDelta, west = lng corner\<rparr>
         | Northeast \<Rightarrow>
             \<lparr>north = lat corner, south = lat corner - latDelta,
              east = lng corner, west = lng corner - lngDelta\<rparr>
         | Southwest \<Rightarrow>
             \<lparr>north = lat corner + latDelta, south = lat corner,
              east = lng corner + lngDelta, west = lng corner\<rparr>
         | Southeast \<Rightarrow>
             \<lparr>north = lat corner + latDelta, south = lat corner,
              east = lng corner, west = lng corner - lngDelta\<rparr>
         | OtherCorner \<Rightarrow>
             \<lparr>north = lat corner, south = lat corner - latDelta,
              east = lng corner + lngDelta, west = lng corner\<rparr>)"

definition calculateBounds :: "LatLng \<Rightarrow> real \<Rightarrow> real \<Rightarrow> Bounds" where
  "calculateBounds center sizeMeters aspectRatio =
     (let latRadians = (lat center * pi) / 180;
          metersPerLngDeg = cos latRadians * 111000;
          latDelta = heightMeters sizeMeters aspectRatio / METERS_PER_LAT_DEG / 2;
          lngDelta = widthMeters sizeMeters aspectRatio / metersPerLngDeg / 2
      in \<lparr>north = lat center + latDelta, south = lat center - latDelta,
          east = lng center + lngDelta, west = lng center - lngDelta\<rparr>)"

section \<open>Adjustment applier (src/index.ts)\<close>

definition centerOf :: "Bounds \<Rightarrow> LatLng" where
  "centerOf b = \<lparr>lat = (north b + south b) / 2, lng = (east b + west b) / 2\<rparr>"

definition applyAdjustment :: "Bounds \<Rightarrow> RefinementAdjustment \<Rightarrow> Bounds" where
  "applyAdjustment currentBounds adjustment =
     (let currentCenter = centerOf currentBounds;
          latRadians = (lat currentCenter * pi) / 180;
          metersPerLngDeg = cos latRadians * 111000;
          latShift = shiftNorth (shiftMeters adjustment) / 111000;
          lngShift = shiftEast (shiftMeters adjustment) / metersPerLngDeg;
          newCenter = \<lparr>lat = lat currentCenter + latShift,
                       lng = lng currentCenter + lngShift\<rparr>;
          currentLatSpan = north currentBounds - south currentBounds;
          currentLngSpan = east currentBounds - west currentBounds;
          newLatSpan = currentLatSpan * scaleFactor adjustment;
          newLngSpan = currentLngSpan * scaleFactor adjustment
      in \<lparr>north = lat newCenter + newLatSpan / 2, south = lat newCenter - newLatSpan / 2,
          east = lng newCenter + newLngSpan / 2, west = lng newCenter - newLngSpan / 2\<rparr>)"

text \<open>The invariant of the data model: a bounding box is properly ordered.\<close>

definition boundsOrdered :: "Bounds \<Rightarrow> bool" where
  "boundsOrdered b = (north b > south b \<and> east b > west b)"

section \<open>Deep refinement endpoint (src/index.ts, /api/ai/deep-refine)\<close>

text \<open>
  The model starts where the handler has the parsed adjustment in hand
  (\<open>parseJsonResponse\<close> returns the adjustment or \<open>null\<close>, which is \<open>None\<close> here);
  the request validation, the model call and the streaming of text chunks before that
  point do not touch the values below. \<open>originalBounds\<close> and \<open>maxShiftMeters\<close> are
  optional fields of the request body; an absent \<open>maxShiftMeters\<close> takes the default
  of the destructuring, 200.
\<close>

text \<open>
  The handler's own measure of how far the center of \<open>currentBounds\<close> is from the
  center of \<open>originalBounds\<close>, in meters.
\<close>

definition currentOffsetNorth :: "Bounds \<Rightarrow> Bounds \<Rightarrow> real" where
  "currentOffsetNorth originalBounds currentBounds =
     (lat (centerOf currentBounds) - lat (centerOf originalBounds)) * 111000"

definition currentOffsetEast :: "Bounds \<Rightarrow> Bounds \<Rightarrow> real" where
  "currentOffsetEast originalBounds currentBounds =
     (lng (centerOf currentBounds) - lng (centerOf originalBounds)) * 111000 *
       cos ((lat (centerOf currentBounds) * pi) / 180)"

text \<open>
  The clamping block. The handler overwrites \<open>adjustment.shiftMeters\<close> in place; the
  model returns the updated adjustment together with \<open>boundsClamped\<close>.
  \<open>Math.sign\<close> is \<open>sgn\<close>, \<open>Math.abs\<close> is \<open>abs\<close>.
\<close>

definition clampShift ::
  "Bounds \<Rightarrow> Bounds \<Rightarrow> real \<Rightarrow> RefinementAdjustment \<Rightarrow> RefinementAdjustment \<times> bool" where
  "clampShift originalBounds currentBounds maxShiftMeters adjustment =
     (let offNorth = currentOffsetNorth originalBounds currentBounds;
          offEast = currentOffsetEast originalBounds currentBounds;
          proposedOffsetNorth = offNorth + shiftNorth (shiftMeters adjustment);
          proposedOffsetEast = offEast + shiftEast (shiftMeters adjustment);
          (adjustment1, clamped1) =
            (if \<bar>proposedOffsetNorth\<bar> > maxShiftMeters
             then (adjustment\<lparr>shiftMeters := (shiftMeters adjustment)
                     \<lparr>shiftNorth := sgn proposedOffsetNorth * maxShiftMeters - offNorth\<rparr>\<rparr>,
                   True)
             else (adjustment, False))
      in if \<bar>proposedOffsetEast\<bar> > maxShiftMeters
         then (adjustment1\<lparr>shiftMeters := (shiftMeters adjustment1)
                 \<lparr>shiftEast := sgn proposedOffsetEast * maxShiftMeters - offEast\<rparr>\<rparr>,
               True)
         else (adjustment1, clamped1))"

text \<open>
  The payload of the \<open>complete\<close> event. \<open>shouldContinue\<close> is the value of
  \<open>adjustment && ...\<close>: \<open>null\<close> (here \<open>None\<close>) when no adjustment was parsed, a
  boolean otherwise.
\<close>

record DeepRefineComplete =
  adjustment :: "RefinementAdjustment option"
  newBounds :: "Bounds option"
  boundsClamped :: bool
  shouldContinue :: "bool option"

text \<open>The destructuring default \<open>maxShiftMeters = 200\<close>.\<close>

definition maxShiftMetersOf :: "real option \<Rightarrow> real" where
  "maxShiftMetersOf field = (case field of None \<Rightarrow> 200 | Some m \<Rightarrow> m)"

definition deepRefine ::
  "Bounds \<Rightarrow> Bounds option \<Rightarrow> real option \<Rightarrow> RefinementAdjustment option
     \<Rightarrow> DeepRefineComplete" where
  "deepRefine currentBounds originalBounds maxShiftMetersField parsed =
     (let maxShiftMeters = maxShiftMetersOf maxShiftMetersField
      in case parsed of
           None \<Rightarrow>
             \<lparr>adjustment = None, newBounds = None, boundsClamped = False,
              shouldContinue = None\<rparr>
         | Some proposed \<Rightarrow>
             (let (adj, clamped) =
                    (case originalBounds of
                       None \<Rightarrow> (proposed, False)
                     | Some ob \<Rightarrow> clampShift ob currentBounds maxShiftMeters proposed)
              in \<lparr>adjustment = Some adj,
                  newBounds = Some (applyAdjustment currentBounds adj),
                  boundsClamped = clamped,
                  shouldContinue =
                    Some (confidence adj < 9 / 10 \<and>
                          (\<bar>shiftNorth (shiftMeters adj)\<bar> > 2 \<or>
                           \<bar>shiftEast (shiftMeters adj)\<bar> > 2))\<rparr>))"

section \<open>Polyline codec (src/index.ts and src/server/lib/roads.ts)\<close>

text \<open>
  A JavaScript string is a sequence of UTF-16 code units, here a list of naturals.
  \<open>charCodeAt\<close> returns \<open>NaN\<close> past the end of the string, which is \<open>None\<close>;
  so \<open>byte\<close> is an \<open>int option\<close>. The bitwise operators convert their operands to
  32-bit integers (\<open>NaN\<close> to 0), \<open><<\<close> uses the shift count modulo 32, \<open>>>\<close> is
  the arithmetic shift, and a comparison with \<open>NaN\<close> is false.
\<close>

definition charCodeAt :: "nat list \<Rightarrow> nat \<Rightarrow> int option" where
  "charCodeAt s i = (if i < length s then Some (int (s ! i)) else None)"

definition toInt32 :: "int option \<Rightarrow> 32 word" where
  "toInt32 x = (case x of None \<Rightarrow> 0 | Some n \<Rightarrow> word_of_int n)"

definition geqNumber :: "int option \<Rightarrow> int \<Rightarrow> bool" where
  "geqNumber x k = (case x of None \<Rightarrow> False | Some n \<Rightarrow> n \<ge> k)"

text \<open>
  The inner \<open>do ... while (byte >= 0x20)\<close> loop: it returns the accumulated
  \<open>result\<close> and the cursor. Not returning is \<open>None\<close>.
\<close>

partial_function (option) decodeValue ::
  "nat list \<Rightarrow> nat \<Rightarrow> nat \<Rightarrow> 32 word \<Rightarrow> (32 word \<times> nat) option" where
  "decodeValue encoded idx shift result =
     (let byte = map_option (\<lambda>c. c - 63) (charCodeAt encoded idx);
          result' = result OR push_bit (shift mod 32) (toInt32 byte AND 0x1f)
      in if geqNumber byte 0x20
         then decodeValue encoded (idx + 1) (shift + 5) result'
         else Some (result', idx + 1))"

text \<open>\<open>(result & 1) !== 0 ? ~(result >> 1) : result >> 1\<close>, read as a signed number.\<close>

definition zigzag :: "32 word \<Rightarrow> int" where
  "zigzag result =
     sint (if result AND 1 \<noteq> 0 then NOT (signed_drop_bit 1 result)
           else signed_drop_bit 1 result)"

text \<open>
  The outer \<open>while (idx < encoded.length)\<close> loop. The running \<open>lat\<close> and \<open>lng\<close>
  are sums of 32-bit deltas held in doubles, exact below \<open>2 ^ 53\<close>; they are
  unbounded integers here.
\<close>

partial_function (option) decodeLoop ::
  "nat list \<Rightarrow> nat \<Rightarrow> int \<Rightarrow> int \<Rightarrow> LatLng list \<Rightarrow> LatLng list option" where
  "decodeLoop encoded idx latE5 lngE5 points =
     (if idx < length encoded
      then (case decodeValue encoded idx 0 0 of
              None \<Rightarrow> None
            | Some (result1, idx1) \<Rightarrow>
                (case decodeValue encoded idx1 0 0 of
                   None \<Rightarrow> None
                 | Some (result2, idx2) \<Rightarrow>
                     decodeLoop encoded idx2 (latE5 + zigzag result1) (lngE5 + zigzag result2)
                       (points @ [\<lparr>lat = real_of_int (latE5 + zigzag result1) / 100000,
                                   lng = real_of_int (lngE5 + zigzag result2) / 100000\<rparr>])))
      else Some points)"

declare decodeValue.simps [code]
declare decodeLoop.simps [code]

definition decodePolyline :: "nat list \<Rightarrow> LatLng list option" where
  "decodePolyline encoded = decodeLoop encoded 0 0 0 []"

text \<open>The code units of an ASCII string literal.\<close>

definition codeUnits :: "string \<Rightarrow> nat list" where
  "codeUnits s = map of_char s"

section \<open>Intersection geocoding (src/index.ts and src/server/lib/geocoding.ts)\<close>

record GeocodingResult = LatLng +
  formattedAddress :: string

text \<open>
  \<open>geocodeAddress\<close> is a network call. It is a parameter here: a function of the
  query and the state of the outside world that yields the new state and either a thrown
  error (\<open>Inl\<close>, the rejected \<open>fetch\<close> of src/server/lib/geocoding.ts) or the returned
  value, \<open>null\<close> being \<open>None\<close>. The state carried through \<open>geocodeIntersection\<close>
  pairs the list of queries sent so far with the state of the world.
\<close>

type_synonym 'w geocoder = "string \<Rightarrow> 'w \<Rightarrow> (string + GeocodingResult option) \<times> 'w"

definition geocodeAddress ::
  "'w geocoder \<Rightarrow> string \<Rightarrow> string list \<times> 'w
     \<Rightarrow> (string + GeocodingResult option) \<times> (string list \<times> 'w)" where
  "geocodeAddress service address st =
     (case service address (snd st) of (r, w') \<Rightarrow> (r, (fst st @ [address], w')))"

definition geocodeIntersection ::
  "'w geocoder \<Rightarrow> string \<Rightarrow> string \<Rightarrow> string \<Rightarrow> string \<Rightarrow> string list \<times> 'w
     \<Rightarrow> (string + GeocodingResult option) \<times> (string list \<times> 'w)" where
  "geocodeIntersection service road1 road2 city state st =
     (let intersectionQuery = road1 @ '' & '' @ road2 @ '', '' @ city @ '', '' @ state
      in case geocodeAddress service intersectionQuery st of
           (Inl err, st1) \<Rightarrow> (Inl err, st1)
         | (Inr (Some result), st1) \<Rightarrow> (Inr (Some result), st1)
         | (Inr None, st1) \<Rightarrow>
             (let fallbackQuery = road1 @ '' and '' @ road2 @ '', '' @ city @ '', '' @ state
              in geocodeAddress service fallbackQuery st1))"

text \<open>
  A geocoding service for exercising \<open>geocodeIntersection\<close>: it knows one
  intersection under the \<open>&\<close> phrasing and one under the \<open>and\<close> phrasing only,
  and counts the requests it has served.
\<close>

definition stubService :: "nat geocoder" where
  "stubService query w =
     (if query = ''Oak St & Elm St, Mesa, AZ''
      then (Inr (Some \<lparr>lat = 33, lng = - 111, formattedAddress = ''Oak St & Elm St''\<rparr>), w + 1)
      else if query = ''Main St and 1st Ave, Phoenix, AZ''
      then (Inr (Some \<lparr>lat = 33, lng = - 112, formattedAddress = ''Main St & 1st Ave''\<rparr>), w + 1)
      else (Inr None, w + 1))"

section \<open>Auxiliary facts\<close>

lemma cos_deg_pos:
  fixes d :: real
  assumes "- 90 < d" and "d < 90"
  shows "0 < cos ((d * pi) / 180)"
proof (rule cos_gt_zero_pi)
  have "0 < pi" by (rule pi_gt_zero)
  from assms(1) \<open>0 < pi\<close> have "(- 90) * pi < d * pi"
    by (simp only: mult_strict_right_mono)
  then show "- (pi / 2) < (d * pi) / 180" by simp
  from assms(2) \<open>0 < pi\<close> have "d * pi < 90 * pi"
    by (simp only: mult_strict_right_mono)
  then show "(d * pi) / 180 < pi / 2" by simp
qed

lemma widthMeters_pos:
  "0 < sizeMeters \<Longrightarrow> 0 < aspectRatio \<Longrightarrow> 0 < widthMeters sizeMeters aspectRatio"
  by (simp add: widthMeters_def)

lemma heightMeters_pos:
  "0 < sizeMeters \<Longrightarrow> 0 < aspectRatio \<Longrightarrow> 0 < heightMeters sizeMeters aspectRatio"
  by (simp add: heightMeters_def)

lemma cos_deg_nonzero:
  fixes d :: real
  assumes "\<bar>d\<bar> < 90"
  shows "cos ((d * pi) / 180) \<noteq> 0"
proof -
  from assms have "- 90 < d" and "d < 90" by auto
  then have "0 < cos ((d * pi) / 180)" by (rule cos_deg_pos)
  then show ?thesis by simp
qed

text \<open>\<open>applyAdjustment\<close> moves the center by the converted shift, whatever the scale.\<close>

lemma center_applyAdjustment:
  "centerOf (applyAdjustment cur adj) =
     \<lparr>lat = lat (centerOf cur) + shiftNorth (shiftMeters adj) / 111000,
      lng = lng (centerOf cur) +
            shiftEast (shiftMeters adj) / (cos ((lat (centerOf cur) * pi) / 180) * 111000)\<rparr>"
  by (simp add: applyAdjustment_def centerOf_def Let_def field_simps)

lemma abs_sgn_mult_le:
  fixes p m :: real
  assumes "0 \<le> m"
  shows "\<bar>sgn p * m\<bar> \<le> m"
  using assms by (simp add: abs_mult abs_sgn_eq)

text \<open>After the clamping block, offset plus shift is within the cap on the north axis.\<close>

lemma clampShift_north:
  assumes "0 \<le> m" and "clampShift ob cur m adj = (adj', c)"
  shows "\<bar>currentOffsetNorth ob cur + shiftNorth (shiftMeters adj')\<bar> \<le> m"
proof (cases "\<bar>currentOffsetNorth ob cur + shiftNorth (shiftMeters adj)\<bar> > m")
  case True
  with assms(2) have "shiftNorth (shiftMeters adj') =
      sgn (currentOffsetNorth ob cur + shiftNorth (shiftMeters adj)) * m - currentOffsetNorth ob cur"
    by (auto simp: clampShift_def Let_def split: if_splits)
  then show ?thesis using abs_sgn_mult_le [OF assms(1)] by simp
next
  case False
  with assms(2) have "shiftNorth (shiftMeters adj') = shiftNorth (shiftMeters adj)"
    by (auto simp: clampShift_def Let_def split: if_splits)
  with False show ?thesis by simp
qed

lemma deepRefine_Some:
  "deepRefine cur (Some ob) mf (Some proposed) =
     (let (adj, clamped) = clampShift ob cur (maxShiftMetersOf mf) proposed
      in \<lparr>adjustment = Some adj,
          newBounds = Some (applyAdjustment cur adj),
          boundsClamped = clamped,
          shouldContinue =
            Some (confidence adj < 9 / 10 \<and>
                  (\<bar>shiftNorth (shiftMeters adj)\<bar> > 2 \<or>
                   \<bar>shiftEast (shiftMeters adj)\<bar> > 2))\<rparr>)"
  by (simp add: deepRefine_def Let_def)

text \<open>
  One iteration, from any \<open>currentBounds\<close> and for a cap that is not negative: on the
  north axis the center of the returned bounds is within the cap of the center of
  \<open>originalBounds\<close>, the conversion of the north shift being independent of the
  latitude.
\<close>

lemma deepRefine_north_within_cap:
  assumes m: "0 \<le> maxShiftMetersOf mf"
    and nb: "newBounds (deepRefine cur (Some ob) mf (Some proposed)) = Some nb"
  shows "\<bar>currentOffsetNorth ob nb\<bar> \<le> maxShiftMetersOf mf"
proof -
  obtain adj' c where cl: "clampShift ob cur (maxShiftMetersOf mf) proposed = (adj', c)"
    by (cases "clampShift ob cur (maxShiftMetersOf mf) proposed")
  with nb have nb_eq: "nb = applyAdjustment cur adj'"
    by (simp add: deepRefine_Some)
  have "currentOffsetNorth ob nb = currentOffsetNorth ob cur + shiftNorth (shiftMeters adj')"
    by (simp add: nb_eq currentOffsetNorth_def center_applyAdjustment algebra_simps)
  with clampShift_north [OF m cl] show ?thesis by simp
qed

text \<open>
  The handler, called again with the bounds it returned for a first iteration at latitude
  1/555 degrees (cap 200, proposal of 200 m south and 1000 m east) and with a proposal of
  no shift at all, finds those bounds beyond the cap to the east: it clamps, and shifts
  back to the west.
\<close>

lemma deepRefine_reclamps_own_output:
  "boundsClamped (deepRefine
      \<lparr>north = 1 / 555, south = - (1 / 555),
       east = 200 / (cos ((1 / 555 * pi) / 180) * 111000) + 1,
       west = 200 / (cos ((1 / 555 * pi) / 180) * 111000) - 1\<rparr>
      (Some \<lparr>north = 2 / 555, south = 0, east = 1, west = - 1\<rparr>) (Some 200)
      (Some \<lparr>shiftMeters = \<lparr>shiftNorth = 0, shiftEast = 0\<rparr>, scaleFactor = 1,
             confidence = 1, reasoning = ''aligned''\<rparr>)) = True \<and>
   shiftEast (shiftMeters (the (adjustment (deepRefine
      \<lparr>north = 1 / 555, south = - (1 / 555),
       east = 200 / (cos ((1 / 555 * pi) / 180) * 111000) + 1,
       west = 200 / (cos ((1 / 555 * pi) / 180) * 111000) - 1\<rparr>
      (Some \<lparr>north = 2 / 555, south = 0, east = 1, west = - 1\<rparr>) (Some 200)
      (Some \<lparr>shiftMeters = \<lparr>shiftNorth = 0, shiftEast = 0\<rparr>, scaleFactor = 1,
             confidence = 1, reasoning = ''aligned''\<rparr>))))) < 0"
proof -
  let ?x = "(1 / 555 * pi) / 180 :: real"
  have x0: "0 < ?x" by simp
  have "?x < pi" using pi_gt_zero by simp
  with x0 have lt1: "cos ?x < 1" using cos_monotone_0_pi [of 0 ?x] by simp
  have "?x < pi / 2" using pi_gt_zero by simp
  with x0 have pos: "0 < cos ?x" by (intro cos_gt_zero) auto
  from lt1 pos have "200 < 200 / cos ?x" by (simp add: field_simps)
  then show ?thesis using pos
    by (simp add: Let_def maxShiftMetersOf_def deepRefine_Some clampShift_def
      centerOf_def currentOffsetNorth_def currentOffsetEast_def)
qed

text \<open>
  The inner loop of the decoder returns, with the cursor moved forward: a continuation
  byte can only be read inside the string, so the distance to the end shrinks.
\<close>

lemma decodeValue_next:
  "\<exists>r i. decodeValue encoded idx shift result = Some (r, i) \<and> idx < i"
proof (induction "length encoded - idx" arbitrary: idx shift result rule: less_induct)
  case less
  show ?case
  proof (cases "geqNumber (map_option (\<lambda>c. c - 63) (charCodeAt encoded idx)) 0x20")
    case True
    then have inb: "idx < length encoded"
      by (auto simp: geqNumber_def charCodeAt_def split: if_splits option.splits)
    then have "length encoded - (idx + 1) < length encoded - idx" by arith
    from less [OF this] obtain r i where
      "decodeValue encoded (idx + 1) (shift + 5)
         (result OR push_bit (shift mod 32)
            (toInt32 (map_option (\<lambda>c. c - 63) (charCodeAt encoded idx)) AND 0x1f)) = Some (r, i)"
      and "idx + 1 < i" by blast
    with True show ?thesis
      by (subst decodeValue.simps) (auto simp: Let_def)
  next
    case False
    then show ?thesis
      by (subst decodeValue.simps) (auto simp: Let_def)
  qed
qed

text \<open>
  The outer loop returns, and pushes at most one point per code unit left of the cursor.
\<close>

lemma decodeLoop_returns:
  "\<exists>ps. decodeLoop encoded idx latE5 lngE5 points = Some ps \<and>
        length ps \<le> length points + (length encoded - idx)"
proof (induction "length encoded - idx" arbitrary: idx latE5 lngE5 points rule: less_induct)
  case less
  show ?case
  proof (cases "idx < length encoded")
    case True
    obtain r1 i1 where v1: "decodeValue encoded idx 0 0 = Some (r1, i1)" and l1: "idx < i1"
      using decodeValue_next by blast
    obtain r2 i2 where v2: "decodeValue encoded i1 0 0 = Some (r2, i2)" and l2: "i1 < i2"
      using decodeValue_next by blast
    let ?points = "points @ [\<lparr>lat = real_of_int (latE5 + zigzag r1) / 100000,
                              lng = real_of_int (lngE5 + zigzag r2) / 100000\<rparr>]"
    from True l1 l2 have "length encoded - i2 < length encoded - idx" by arith
    from less [OF this] obtain ps where
      ps: "decodeLoop encoded i2 (latE5 + zigzag r1) (lngE5 + zigzag r2) ?points = Some ps"
      and len: "length ps \<le> length ?points + (length encoded - i2)"
      by blast
    from True l1 l2 len have "length ps \<le> length points + (length encoded - idx)"
      by simp
    moreover from True v1 v2 ps
    have "decodeLoop encoded idx latE5 lngE5 points = Some ps"
      by (subst decodeLoop.simps) simp
    ultimately show ?thesis by blast
  next
    case False
    then show ?thesis
      by (subst decodeLoop.simps) simp
  qed
qed

section \<open>The claims\<close>

text \<open>
  C1: after an iteration of the deep refinement with \<open>originalBounds\<close> and a parsed
  adjustment, the center of the returned bounds is at most \<open>maxShiftMeters\<close> away from
  the center of \<open>originalBounds\<close> on the north axis and on the east axis, the east
  displacement being the longitude difference times 111000 times the cosine of the center
  latitude. The handler sets out to do this (its block is headed "Clamp shifts to
  maxShiftMeters from original position") and does it on the north axis, but misses on
  the east axis: it measures the east offset, and converts the east shift, with the
  cosine at the latitude the iteration starts from, which the north shift of the same
  adjustment then changes. Below, a first iteration at latitude 1/555 degrees with the
  cap 200 and a proposal of 200 m south and 1000 m east: the east shift is clamped to
  200 m, the returned center is on the equator, and its east offset, as the handler
  itself measures it for these bounds, is above 200.
\<close>

theorem deepRefine_east_offset_counterexample:
  "newBounds (deepRefine \<lparr>north = 2 / 555, south = 0, east = 1, west = - 1\<rparr>
      (Some \<lparr>north = 2 / 555, south = 0, east = 1, west = - 1\<rparr>) (Some 200)
      (Some \<lparr>shiftMeters = \<lparr>shiftNorth = - 200, shiftEast = 1000\<rparr>, scaleFactor = 1,
             confidence = 1 / 2, reasoning = ''far east''\<rparr>)) =
     Some \<lparr>north = 1 / 555, south = - (1 / 555),
           east = 200 / (cos ((1 / 555 * pi) / 180) * 111000) + 1,
           west = 200 / (cos ((1 / 555 * pi) / 180) * 111000) - 1\<rparr> \<and>
   boundsClamped (deepRefine \<lparr>north = 2 / 555, south = 0, east = 1, west = - 1\<rparr>
      (Some \<lparr>north = 2 / 555, south = 0, east = 1, west = - 1\<rparr>) (Some 200)
      (Some \<lparr>shiftMeters = \<lparr>shiftNorth = - 200, shiftEast = 1000\<rparr>, scaleFactor = 1,
             confidence = 1 / 2, reasoning = ''far east''\<rparr>)) = True \<and>
   200 < \<bar>currentOffsetEast \<lparr>north = 2 / 555, south = 0, east = 1, west = - 1\<rparr>
           \<lparr>north = 1 / 555, south = - (1 / 555),
            east = 200 / (cos ((1 / 555 * pi) / 180) * 111000) + 1,
            west = 200 / (cos ((1 / 555 * pi) / 180) * 111000) - 1\<rparr>\<bar>"
proof -
  let ?x = "(1 / 555 * pi) / 180 :: real"
  have x0: "0 < ?x" by simp
  have "?x < pi" using pi_gt_zero by simp
  with x0 have lt1: "cos ?x < 1" using cos_monotone_0_pi [of 0 ?x] by simp
  have "?x < pi / 2" using pi_gt_zero by simp
  with x0 have pos: "0 < cos ?x" by (intro cos_gt_zero) auto
  from lt1 pos have "200 < 200 / cos ?x" by (simp add: field_simps)
  then show ?thesis using pos
    by (simp add: Let_def maxShiftMetersOf_def deepRefine_Some clampShift_def applyAdjustment_def
      centerOf_def currentOffsetNorth_def currentOffsetEast_def)
qed

text \<open>
  C2: for \<open>sizeMeters > 0\<close> and \<open>aspectRatio > 0\<close>, \<open>calculateBoundsFromCorner\<close> puts
  the named corner exactly on the input point and the opposite corner the full height
  (\<open>heightMeters / 111000\<close> degrees of latitude) and the full width
  (\<open>widthMeters / (cos (corner.lat * pi / 180) * 111000)\<close> degrees of longitude) away.
\<close>

theorem calculateBoundsFromCorner_anchored:
  assumes "0 < sizeMeters" and "0 < aspectRatio"
  shows "let dLat = heightMeters sizeMeters aspectRatio / 111000;
             dLng = widthMeters sizeMeters aspectRatio / (cos (lat corner * pi / 180) * 111000);
             nw = calculateBoundsFromCorner corner Northwest sizeMeters aspectRatio;
             ne = calculateBoundsFromCorner corner Northeast sizeMeters aspectRatio;
             sw = calculateBoundsFromCorner corner Southwest sizeMeters aspectRatio;
             se = calculateBoundsFromCorner corner Southeast sizeMeters aspectRatio
         in (north nw = lat corner \<and> west nw = lng corner \<and>
             south nw = lat corner - dLat \<and> east nw = lng corner + dLng) \<and>
            (north ne = lat corner \<and> east ne = lng corner \<and>
             south ne = lat corner - dLat \<and> west ne = lng corner - dLng) \<and>
            (south sw = lat corner \<and> west sw = lng corner \<and>
             north sw = lat corner + dLat \<and> east sw = lng corner + dLng) \<and>
            (south se = lat corner \<and> east se = lng corner \<and>
             north se = lat corner + dLat \<and> west se = lng corner - dLng)"
  by (simp add: calculateBoundsFromCorner_def METERS_PER_LAT_DEG_def Let_def)

text \<open>A landscape plan of 111 km by 55.5 km anchored at a point on the equator.\<close>

theorem calculateBoundsFromCorner_anchored_witness:
  "(0::real) < 111000 \<and> (0::real) < 2 \<and>
   calculateBoundsFromCorner \<lparr>lat = 0, lng = 10\<rparr> Northwest 111000 2 =
     \<lparr>north = 0, south = - (1 / 2), east = 11, west = 10\<rparr> \<and>
   calculateBoundsFromCorner \<lparr>lat = 0, lng = 10\<rparr> Northeast 111000 2 =
     \<lparr>north = 0, south = - (1 / 2), east = 10, west = 9\<rparr> \<and>
   calculateBoundsFromCorner \<lparr>lat = 0, lng = 10\<rparr> Southwest 111000 2 =
     \<lparr>north = 1 / 2, south = 0, east = 11, west = 10\<rparr> \<and>
   calculateBoundsFromCorner \<lparr>lat = 0, lng = 10\<rparr> Southeast 111000 2 =
     \<lparr>north = 1 / 2, south = 0, east = 10, west = 9\<rparr>"
  using calculateBoundsFromCorner_anchored [of 111000 2 "\<lparr>lat = 0, lng = 10\<rparr>"]
  by (simp add: Let_def widthMeters_def heightMeters_def Bounds.equality)

text \<open>
  C3: the null adjustment (no shift to the north, none to the east, scale factor 1) is
  an identity of \<open>applyAdjustment\<close>, exactly, in real arithmetic. (At a center
  latitude of 90 or -90 the real cosine is 0 and the longitude shift is 0 / 0, which is
  0 in HOL; the program divides 0 by the nonzero double \<open>Math.cos\<close> returns there,
  which is 0 as well.)
\<close>

theorem applyAdjustment_null_identity:
  "shiftNorth (shiftMeters adj) = 0 \<Longrightarrow> shiftEast (shiftMeters adj) = 0 \<Longrightarrow>
   scaleFactor adj = 1 \<Longrightarrow> applyAdjustment b adj = b"
  by (simp add: applyAdjustment_def centerOf_def Let_def field_simps)

theorem applyAdjustment_null_identity_witness:
  "shiftNorth (shiftMeters \<lparr>shiftMeters = \<lparr>shiftNorth = 0, shiftEast = 0\<rparr>, scaleFactor = 1,
      confidence = 1, reasoning = ''aligned''\<rparr>) = 0 \<and>
   shiftEast (shiftMeters \<lparr>shiftMeters = \<lparr>shiftNorth = 0, shiftEast = 0\<rparr>, scaleFactor = 1,
      confidence = 1, reasoning = ''aligned''\<rparr>) = 0 \<and>
   scaleFactor \<lparr>shiftMeters = \<lparr>shiftNorth = 0, shiftEast = 0\<rparr>, scaleFactor = 1,
      confidence = 1, reasoning = ''aligned''\<rparr> = 1 \<and>
   applyAdjustment \<lparr>north = 34, south = 33, east = - 111, west = - 112\<rparr>
     \<lparr>shiftMeters = \<lparr>shiftNorth = 0, shiftEast = 0\<rparr>, scaleFactor = 1,
      confidence = 1, reasoning = ''aligned''\<rparr> =
     \<lparr>north = 34, south = 33, east = - 111, west = - 112\<rparr>"
  using applyAdjustment_null_identity
    [of "\<lparr>shiftMeters = \<lparr>shiftNorth = 0, shiftEast = 0\<rparr>, scaleFactor = 1,
          confidence = 1, reasoning = ''aligned''\<rparr>"
        "\<lparr>north = 34, south = 33, east = - 111, west = - 112\<rparr>"]
  by simp

text \<open>
  C4: \<open>calculateBounds\<close> and \<open>calculateBoundsFromCorner\<close> with \<open>sizeMeters > 0\<close>,
  \<open>aspectRatio > 0\<close> and an input latitude strictly between -90 and 90, and
  \<open>applyAdjustment\<close> on ordered bounds with \<open>scaleFactor > 0\<close> and a center latitude
  strictly between -90 and 90, return bounds with \<open>north > south\<close> and \<open>east > west\<close>.
\<close>

theorem bounds_ordered:
  "(0 < sizeMeters \<and> 0 < aspectRatio \<and> - 90 < lat p \<and> lat p < 90 \<longrightarrow>
      boundsOrdered (calculateBounds p sizeMeters aspectRatio) \<and>
      boundsOrdered (calculateBoundsFromCorner p cornerPosition sizeMeters aspectRatio)) \<and>
   (boundsOrdered b \<and> 0 < scaleFactor adj \<and>
      - 90 < lat (centerOf b) \<and> lat (centerOf b) < 90 \<longrightarrow>
      boundsOrdered (applyAdjustment b adj))"
proof (intro conjI impI)
  assume h: "0 < sizeMeters \<and> 0 < aspectRatio \<and> - 90 < lat p \<and> lat p < 90"
  then have c: "0 < cos ((lat p * pi) / 180)" by (intro cos_deg_pos) auto
  from h have w: "0 < widthMeters sizeMeters aspectRatio"
    and ht: "0 < heightMeters sizeMeters aspectRatio"
    by (simp_all add: widthMeters_pos heightMeters_pos)
  from c w have dl: "0 < widthMeters sizeMeters aspectRatio / (cos ((lat p * pi) / 180) * 111000)"
    by simp
  from ht dl show "boundsOrdered (calculateBounds p sizeMeters aspectRatio)"
    by (simp add: boundsOrdered_def calculateBounds_def METERS_PER_LAT_DEG_def Let_def)
  from ht dl show "boundsOrdered (calculateBoundsFromCorner p cornerPosition sizeMeters aspectRatio)"
    by (cases cornerPosition)
       (simp_all add: boundsOrdered_def calculateBoundsFromCorner_def METERS_PER_LAT_DEG_def Let_def)
next
  assume h: "boundsOrdered b \<and> 0 < scaleFactor adj \<and>
      - 90 < lat (centerOf b) \<and> lat (centerOf b) < 90"
  then have "0 < (north b - south b) * scaleFactor adj"
    and "0 < (east b - west b) * scaleFactor adj"
    by (simp_all add: boundsOrdered_def)
  then show "boundsOrdered (applyAdjustment b adj)"
    by (simp add: boundsOrdered_def applyAdjustment_def Let_def)
qed

theorem bounds_ordered_witness:
  "(0::real) < 111000 \<and> (0::real) < 2 \<and> (- 90::real) < 0 \<and> (0::real) < 90 \<and>
   boundsOrdered (calculateBounds \<lparr>lat = 0, lng = 10\<rparr> 111000 2) \<and>
   boundsOrdered (calculateBoundsFromCorner \<lparr>lat = 0, lng = 10\<rparr> Southeast 111000 2) \<and>
   boundsOrdered \<lparr>north = 1, south = - 1, east = 1, west = - 1\<rparr> \<and>
   boundsOrdered (applyAdjustment \<lparr>north = 1, south = - 1, east = 1, west = - 1\<rparr>
     \<lparr>shiftMeters = \<lparr>shiftNorth = 50, shiftEast = - 30\<rparr>, scaleFactor = 2,
      confidence = 1 / 2, reasoning = ''grow''\<rparr>)"
  using bounds_ordered [of 111000 2 "\<lparr>lat = 0, lng = 10\<rparr>" Southeast
      "\<lparr>north = 1, south = - 1, east = 1, west = - 1\<rparr>"
      "\<lparr>shiftMeters = \<lparr>shiftNorth = 50, shiftEast = - 30\<rparr>, scaleFactor = 2,
        confidence = 1 / 2, reasoning = ''grow''\<rparr>"]
  by (simp add: centerOf_def boundsOrdered_def)

text \<open>
  C5: \<open>decodePolyline\<close> returns the empty sequence on the empty string, and on the
  fixture of the published example it returns exactly three points, the first being
  (38.5, -120.2).
\<close>

theorem decodePolyline_fixture:
  "decodePolyline (codeUnits '''') = Some [] \<and>
   decodePolyline (codeUnits ''_p~iF~ps|U_ulLnnqC_mqNvxq`@'') =
     Some [\<lparr>lat = 38.5, lng = - 120.2\<rparr>,
           \<lparr>lat = 40.7, lng = - 120.95\<rparr>,
           \<lparr>lat = 43.252, lng = - 126.453\<rparr>]"
  by code_simp

text \<open>
  C6: \<open>decodePolyline\<close> returns on every input, well-formed or not, with at most one
  point per code unit of the input.
\<close>

theorem decodePolyline_terminates:
  "\<exists>points. decodePolyline encoded = Some points \<and> length points \<le> length encoded"
  using decodeLoop_returns [of encoded 0 0 0 "[]"] by (simp add: decodePolyline_def)

text \<open>
  C7, as stated: \<open>shouldContinue\<close> is true exactly when an adjustment was parsed, its
  confidence is below 0.9 and it proposes more than 2 m to the north or to the east, so
  that the loop stops once the AI is confident or proposes at most 2 m on both axes. With
  \<open>originalBounds\<close> in the request this fails in both directions, because the
  handler clamps \<open>adjustment.shiftMeters\<close> in place before it computes
  \<open>shouldContinue\<close>. Both requests below have the default cap of 200 m and a
  confidence of 0.5. In the first, the current bounds are 200 m north of the original
  ones and the AI proposes 50 m further north: the shift is clamped to 0 and
  \<open>shouldContinue\<close> is false. In the second, the current bounds are 300 m north of
  the original ones and the AI proposes 1 m north: the shift becomes 100 m south and
  \<open>shouldContinue\<close> is true.
\<close>

theorem shouldContinue_proposal_counterexample:
  "confidence \<lparr>shiftMeters = \<lparr>shiftNorth = 50, shiftEast = 0\<rparr>, scaleFactor = 1,
      confidence = 1 / 2, reasoning = ''further north''\<rparr> < 9 / 10 \<and>
   \<bar>shiftNorth (shiftMeters \<lparr>shiftMeters = \<lparr>shiftNorth = 50, shiftEast = 0\<rparr>, scaleFactor = 1,
      confidence = 1 / 2, reasoning = ''further north''\<rparr>)\<bar> > 2 \<and>
   shouldContinue (deepRefine \<lparr>north = 556 / 555, south = - (554 / 555), east = 1, west = - 1\<rparr>
      (Some \<lparr>north = 1, south = - 1, east = 1, west = - 1\<rparr>) None
      (Some \<lparr>shiftMeters = \<lparr>shiftNorth = 50, shiftEast = 0\<rparr>, scaleFactor = 1,
             confidence = 1 / 2, reasoning = ''further north''\<rparr>)) = Some False \<and>
   \<bar>shiftNorth (shiftMeters \<lparr>shiftMeters = \<lparr>shiftNorth = 1, shiftEast = 0\<rparr>, scaleFactor = 1,
      confidence = 1 / 2, reasoning = ''nearly there''\<rparr>)\<bar> \<le> 2 \<and>
   \<bar>shiftEast (shiftMeters \<lparr>shiftMeters = \<lparr>shiftNorth = 1, shiftEast = 0\<rparr>, scaleFactor = 1,
      confidence = 1 / 2, reasoning = ''nearly there''\<rparr>)\<bar> \<le> 2 \<and>
   shouldContinue (deepRefine \<lparr>north = 371 / 370, south = - (369 / 370), east = 1, west = - 1\<rparr>
      (Some \<lparr>north = 1, south = - 1, east = 1, west = - 1\<rparr>) None
      (Some \<lparr>shiftMeters = \<lparr>shiftNorth = 1, shiftEast = 0\<rparr>, scaleFactor = 1,
             confidence = 1 / 2, reasoning = ''nearly there''\<rparr>)) = Some True"
  by (simp add: Let_def maxShiftMetersOf_def deepRefine_Some clampShift_def
      centerOf_def currentOffsetNorth_def currentOffsetEast_def)

text \<open>
  C7, amended: in the payload of the \<open>complete\<close> event, \<open>shouldContinue\<close> is true
  exactly when an adjustment was parsed, its confidence is below 0.9, and the shift that
  the handler applies is more than 2 m in absolute value to the north or to the east.
  The applied shift is the proposed one when the request has no \<open>originalBounds\<close>;
  otherwise, on each axis, it is the proposed shift while the current offset plus the
  proposed shift stays within \<open>maxShiftMeters\<close> in absolute value, and the sign of
  that sum times \<open>maxShiftMeters\<close>, minus the current offset, when it does not.
\<close>

theorem shouldContinue_applied_shift:
  "(shouldContinue (deepRefine cur ob mf parsed) = Some True) =
     (\<exists>proposed. parsed = Some proposed \<and> confidence proposed < 9 / 10 \<and>
        (case ob of
           None \<Rightarrow>
             \<bar>shiftNorth (shiftMeters proposed)\<bar> > 2 \<or> \<bar>shiftEast (shiftMeters proposed)\<bar> > 2
         | Some original \<Rightarrow>
             \<bar>if \<bar>currentOffsetNorth original cur + shiftNorth (shiftMeters proposed)\<bar>
                    > maxShiftMetersOf mf
               then sgn (currentOffsetNorth original cur + shiftNorth (shiftMeters proposed))
                      * maxShiftMetersOf mf - currentOffsetNorth original cur
               else shiftNorth (shiftMeters proposed)\<bar> > 2 \<or>
             \<bar>if \<bar>currentOffsetEast original cur + shiftEast (shiftMeters proposed)\<bar>
                    > maxShiftMetersOf mf
               then sgn (currentOffsetEast original cur + shiftEast (shiftMeters proposed))
                      * maxShiftMetersOf mf - currentOffsetEast original cur
               else shiftEast (shiftMeters proposed)\<bar> > 2))"
proof (cases parsed)
  case None
  then show ?thesis by (simp add: deepRefine_def)
next
  case (Some proposed)
  show ?thesis
  proof (cases ob)
    case None
    with Some show ?thesis by (simp add: deepRefine_def Let_def)
  next
    case (Some original)
    with \<open>parsed = Some proposed\<close> show ?thesis
      by (simp add: deepRefine_Some clampShift_def Let_def split: if_splits)
  qed
qed

text \<open>
  C8: for a center with a latitude strictly between -90 and 90 and \<open>sizeMeters > 0\<close>,
  \<open>calculateBounds\<close> with aspect ratio 1 is symmetric around the center, and its
  north-south extent in meters equals its east-west extent in meters at the latitude of
  the center (both are \<open>sizeMeters\<close>; equal, so within any tolerance).
\<close>

theorem calculateBounds_square:
  assumes "\<bar>lat c\<bar> < 90" and "0 < s"
  shows "let b = calculateBounds c s 1 in
           (north b + south b) / 2 = lat c \<and> (east b + west b) / 2 = lng c \<and>
           (north b - south b) * 111000 = (east b - west b) * cos (lat c * pi / 180) * 111000 \<and>
           (north b - south b) * 111000 = s"
proof -
  from assms(1) have "cos (lat c * pi / 180) \<noteq> 0"
    by (rule cos_deg_nonzero)
  then show ?thesis
    by (simp add: calculateBounds_def Let_def widthMeters_def heightMeters_def
        METERS_PER_LAT_DEG_def field_simps)
qed

theorem calculateBounds_square_witness:
  "\<bar>lat \<lparr>lat = 0, lng = 10\<rparr>\<bar> < 90 \<and> (0::real) < 222000 \<and>
   (north (calculateBounds \<lparr>lat = 0, lng = 10\<rparr> 222000 1) +
      south (calculateBounds \<lparr>lat = 0, lng = 10\<rparr> 222000 1)) / 2 = 0 \<and>
   (east (calculateBounds \<lparr>lat = 0, lng = 10\<rparr> 222000 1) +
      west (calculateBounds \<lparr>lat = 0, lng = 10\<rparr> 222000 1)) / 2 = 10 \<and>
   (north (calculateBounds \<lparr>lat = 0, lng = 10\<rparr> 222000 1) -
      south (calculateBounds \<lparr>lat = 0, lng = 10\<rparr> 222000 1)) * 111000 = 222000 \<and>
   (east (calculateBounds \<lparr>lat = 0, lng = 10\<rparr> 222000 1) -
      west (calculateBounds \<lparr>lat = 0, lng = 10\<rparr> 222000 1)) * 111000 = 222000"
  using calculateBounds_square [of "\<lparr>lat = 0, lng = 10\<rparr>" 222000]
  by (simp add: Let_def)

text \<open>
  C9: \<open>geocodeIntersection\<close> sends the \<open>&\<close> phrasing first; a result found for it is
  returned as it is and nothing else is sent; when it yields \<open>null\<close> the \<open>and\<close>
  phrasing is sent next and its outcome, \<open>null\<close> included, is the outcome of the
  function. The queries sent are these, in this order.
\<close>

theorem geocodeIntersection_order:
  "(\<forall>result w1.
      service (road1 @ '' & '' @ road2 @ '', '' @ city @ '', '' @ state) w =
        (Inr (Some result), w1) \<longrightarrow>
      geocodeIntersection service road1 road2 city state (sent, w) =
        (Inr (Some result),
         (sent @ [road1 @ '' & '' @ road2 @ '', '' @ city @ '', '' @ state], w1))) \<and>
   (\<forall>w1 answer w2.
      service (road1 @ '' & '' @ road2 @ '', '' @ city @ '', '' @ state) w = (Inr None, w1) \<and>
      service (road1 @ '' and '' @ road2 @ '', '' @ city @ '', '' @ state) w1 = (answer, w2) \<longrightarrow>
      geocodeIntersection service road1 road2 city state (sent, w) =
        (answer,
         (sent @ [road1 @ '' & '' @ road2 @ '', '' @ city @ '', '' @ state,
                  road1 @ '' and '' @ road2 @ '', '' @ city @ '', '' @ state], w2)))"
  by (simp add: geocodeIntersection_def geocodeAddress_def Let_def)

text \<open>
  One intersection found at the first query, one found at the second only, one found by
  neither.
\<close>

theorem geocodeIntersection_order_witness:
  "stubService ''Oak St & Elm St, Mesa, AZ'' 0 =
     (Inr (Some \<lparr>lat = 33, lng = - 111, formattedAddress = ''Oak St & Elm St''\<rparr>), 1) \<and>
   geocodeIntersection stubService ''Oak St'' ''Elm St'' ''Mesa'' ''AZ'' ([], 0) =
     (Inr (Some \<lparr>lat = 33, lng = - 111, formattedAddress = ''Oak St & Elm St''\<rparr>),
      ([''Oak St & Elm St, Mesa, AZ''], 1)) \<and>
   stubService ''Main St & 1st Ave, Phoenix, AZ'' 0 = (Inr None, 1) \<and>
   stubService ''Main St and 1st Ave, Phoenix, AZ'' 1 =
     (Inr (Some \<lparr>lat = 33, lng = - 112, formattedAddress = ''Main St & 1st Ave''\<rparr>), 2) \<and>
   geocodeIntersection stubService ''Main St'' ''1st Ave'' ''Phoenix'' ''AZ'' ([], 0) =
     (Inr (Some \<lparr>lat = 33, lng = - 112, formattedAddress = ''Main St & 1st Ave''\<rparr>),
      ([''Main St & 1st Ave, Phoenix, AZ'', ''Main St and 1st Ave, Phoenix, AZ''], 2)) \<and>
   geocodeIntersection stubService ''No St'' ''Nowhere Ave'' ''Phoenix'' ''AZ'' ([], 0) =
     (Inr None,
      ([''No St & Nowhere Ave, Phoenix, AZ'', ''No St and Nowhere Ave, Phoenix, AZ''], 2))"
  using geocodeIntersection_order [of stubService "''Oak St''" "''Elm St''" "''Mesa''"
      "''AZ''" 0 "[]"]
    geocodeIntersection_order [of stubService "''Main St''" "''1st Ave''" "''Phoenix''"
      "''AZ''" 0 "[]"]
    geocodeIntersection_order [of stubService "''No St''" "''Nowhere Ave''" "''Phoenix''"
      "''AZ''" 0 "[]"]
  by (simp add: stubService_def)

text \<open>
  C10: with a parsed adjustment and no \<open>originalBounds\<close> in the request, nothing is
  clamped: the adjustment of the payload is the proposed one, \<open>newBounds\<close> is
  \<open>applyAdjustment\<close> of \<open>currentBounds\<close> and the proposed adjustment, and
  \<open>boundsClamped\<close> is false, whatever \<open>maxShiftMeters\<close> is.
\<close>

theorem deepRefine_without_originalBounds:
  "adjustment (deepRefine cur None mf (Some adj)) = Some adj \<and>
   newBounds (deepRefine cur None mf (Some adj)) = Some (applyAdjustment cur adj) \<and>
   boundsClamped (deepRefine cur None mf (Some adj)) = False"
  by (simp add: deepRefine_def Let_def)

end
